theory Spec2Isabelle
  imports Main
begin

section \<open>The external check executor (pkg/checks/external/main.go)\<close>

text \<open>
  A shallow embedding of the Go package \<open>external\<close>. The \<open>Checker\<close> struct is a record
  and every method with a pointer receiver takes the record and gives the updated record
  back. The slices of the pod template point into backing arrays, which are kept in an
  explicit memory, because \<open>append\<close> writes into them. The cluster API (client-go) is not
  part of the package: each call the code makes is recorded in a trace of \<open>call\<close>s,
  and what the API answers is an input of the model. Logging is left out.
\<close>

subsection \<open>Go values: errors, durations, outcomes\<close>

text \<open>
  A Go \<open>error\<close> is either built by \<open>errors.New\<close> (the only constructor the package uses
  itself) or comes back from the cluster API, where it carries a reason; the reason
  \<open>NotFound\<close> is what \<open>Get\<close> answers for a pod that is not in the API. A nil error is
  \<open>None\<close>.
\<close>

datatype StatusReason = StatusReasonNotFound | StatusReasonUnknown

datatype error = errorString string | StatusError StatusReason string

fun Error :: "error \<Rightarrow> string" where
  "Error (errorString s) = s"
| "Error (StatusError r m) = m"

definition errors_New :: "string \<Rightarrow> error" where
  "errors_New s = errorString s"

text \<open>\<open>time.Duration\<close> counts nanoseconds.\<close>

type_synonym Duration = int

definition time_Nanosecond :: Duration where "time_Nanosecond = 1"
definition time_Microsecond :: Duration where "time_Microsecond = 1000 * time_Nanosecond"
definition time_Millisecond :: Duration where "time_Millisecond = 1000 * time_Microsecond"
definition time_Second :: Duration where "time_Second = 1000 * time_Millisecond"
definition time_Minute :: Duration where "time_Minute = 60 * time_Second"

text \<open>
  How a call ends: it returns, it panics (a nil pointer is dereferenced), or control
  never comes back, because the call is blocked on a watch that delivers nothing more or
  is still looping when the answers supplied by the environment are used up.
\<close>

datatype 'a outcome = Return 'a | Panic | NoReturn

subsection \<open>Slices and their backing arrays\<close>

text \<open>
  A Go slice is a window on a backing array: the array, the position of the slice's
  first element in it, a length and a capacity. Arrays are numbered; the arrays of one
  element type are the list \<open>arrays\<close>. The nil slice has length and capacity 0, and
  \<open>len\<close>, \<open>range\<close> and \<open>append\<close> do not tell it from an empty one.
\<close>

record slice =
  Array :: nat
  Offset :: nat
  Len :: nat
  Cap :: nat

definition nilSlice :: slice where
  "nilSlice = \<lparr>Array = 0, Offset = 0, Len = 0, Cap = 0\<rparr>"

text \<open>The elements a slice shows.\<close>

definition elems :: "'a list list \<Rightarrow> slice \<Rightarrow> 'a list" where
  "elems arrays s = take (Len s) (drop (Offset s) (arrays ! Array s))"

text \<open>
  The built-in \<open>append\<close>. If the capacity suffices, the new elements are written into
  the backing array behind the slice's last element, where every other slice on that
  array sees them, and the result is the same window made longer. Otherwise a new
  array receives the old elements and the new ones. The capacity of the new array is
  chosen by the runtime: \<open>newcap\<close> stands for its choice, given the old capacity and
  the length needed, and the array is never shorter than that length. \<open>zero\<close> fills the
  unused part of the new array.
\<close>

definition go_append :: "(nat \<Rightarrow> nat \<Rightarrow> nat) \<Rightarrow> 'a \<Rightarrow> 'a list list \<Rightarrow> slice \<Rightarrow> 'a list \<Rightarrow> 'a list list \<times> slice" where
  "go_append newcap zero arrays s vs =
     (let n = Len s + length vs in
      if n \<le> Cap s then
        (arrays[Array s := take (Offset s + Len s) (arrays ! Array s) @ vs @
                           drop (Offset s + n) (arrays ! Array s)],
         s\<lparr>Len := n\<rparr>)
      else
        (let c = max n (newcap (Cap s) n) in
         (arrays @ [elems arrays s @ vs @ replicate (c - n) zero],
          \<lparr>Array = length arrays, Offset = 0, Len = n, Cap = c\<rparr>)))"

subsection \<open>The Kubernetes objects the package touches\<close>

record envvar =
  EnvVar_Name :: string
  EnvVar_Value :: string

definition zeroEnvVar :: envvar where
  "zeroEnvVar = \<lparr>EnvVar_Name = [], EnvVar_Value = []\<rparr>"

text \<open>
  \<open>Env\<close> is the field the package appends to, so it is a slice. The other slices and
  maps of a container or a pod spec are of other element types; nothing in the package
  writes to arrays or maps of those types, so their contents stand for them.
\<close>

record container =
  Container_Name :: string
  Image :: string
  Command :: "string list"
  Args :: "string list"
  Env :: slice
  Resources :: "(string \<times> string) list"

text \<open>
  The memory the slices of a pod template point into: the backing arrays of element
  type \<open>EnvVar\<close> and those of element type \<open>Container\<close>.
\<close>

record heap =
  envArrays :: "envvar list list"
  containerArrays :: "container list list"

text \<open>\<open>RestartPolicy\<close> and \<open>PodPhase\<close> are string types with named constants.\<close>

definition RestartPolicyAlways :: string where "RestartPolicyAlways = ''Always''"
definition RestartPolicyOnFailure :: string where "RestartPolicyOnFailure = ''OnFailure''"
definition RestartPolicyNever :: string where "RestartPolicyNever = ''Never''"

definition PodPending :: string where "PodPending = ''Pending''"
definition PodRunning :: string where "PodRunning = ''Running''"
definition PodSucceeded :: string where "PodSucceeded = ''Succeeded''"
definition PodFailed :: string where "PodFailed = ''Failed''"
definition PodUnknown :: string where "PodUnknown = ''Unknown''"

record podspec =
  Containers :: slice
  InitContainers :: slice
  Hostname :: string
  RestartPolicy :: string
  NodeSelector :: "(string \<times> string) list"
  Tolerations :: "string list"
  Volumes :: "string list"
  ServiceAccountName :: string

text \<open>
  \<open>StartTime\<close> is a \<open>*metav1.Time\<close>: nil, or an instant, here in nanoseconds since the
  zero instant. \<open>IsZero\<close> is true of nil and of the zero instant.
\<close>

record podstatus =
  Phase :: string
  StartTime :: "int option"

fun IsZero :: "int option \<Rightarrow> bool" where
  "IsZero None = True"
| "IsZero (Some t) = (t = 0)"

record pod =
  ObjectMeta_Namespace :: string
  ObjectMeta_Name :: string
  ObjectMeta_Labels :: "(string \<rightharpoonup> string) option"
  Spec :: podspec
  Status :: podstatus

text \<open>Reading a Go map: a nil map and a missing key both give the zero value.\<close>

definition lookupLabel :: "(string \<rightharpoonup> string) option \<Rightarrow> string \<Rightarrow> string" where
  "lookupLabel m k = (case m of None \<Rightarrow> [] | Some f \<Rightarrow> (case f k of None \<Rightarrow> [] | Some v \<Rightarrow> v))"

subsection \<open>Package constants and the Checker\<close>

definition DefaultKuberhealthyReportingURL :: string where
  "DefaultKuberhealthyReportingURL = ''http://kuberhealthy.kuberhealthy.svc.local''"

definition kuberhealthyRunIDLabel :: string where
  "kuberhealthyRunIDLabel = ''kuberhealthy-run-id''"

definition kuberhealthyCheckNameLabel :: string where
  "kuberhealthyCheckNameLabel = ''kuberhealthy-check-name''"

definition defaultMaxRunTime :: Duration where
  "defaultMaxRunTime = time_Minute * 15"

definition defaultMaxStartTime :: Duration where
  "defaultMaxStartTime = time_Minute * 5"

definition DefaultName :: string where
  "DefaultName = ''external-check''"

text \<open>
  \<open>NamePrefix\<close> is a package variable initialised from \<open>DefaultName\<close>; nothing in the
  package assigns it again.
\<close>

definition NamePrefix :: string where
  "NamePrefix = DefaultName"

definition defaultRunInterval :: Duration where
  "defaultRunInterval = time_Minute * 10"

datatype Clientset = Clientset

record checker =
  CheckName :: string
  Namespace :: string
  ErrorMessages :: "string list"
  RunInterval :: Duration
  maxRunTime :: Duration
  startupTimeout :: Duration
  kubeClient :: "Clientset option"
  PodSpec :: "podspec option"
  PodDeployed :: bool
  PodName :: string
  RunID :: string
  KuberhealthyReportingURL :: string
  currentCheckUUID :: string
  Debug :: bool
  memory :: heap

text \<open>
  The last field is not a field of the struct: it is the memory that the slices of
  \<open>PodSpec\<close> point into, kept next to the struct so that every method finds it.
\<close>

text \<open>
  \<open>New\<close>: the package variable \<open>namespace\<close> is read from the process environment
  (\<open>POD_NAMESPACE\<close>) and is a parameter here. The fields the literal does not mention
  have Go's zero values.
\<close>

definition New :: "string \<Rightarrow> checker \<times> error option" where
  "New namespace =
     (\<lparr> CheckName = DefaultName,
        Namespace = namespace,
        ErrorMessages = [],
        RunInterval = defaultRunInterval,
        maxRunTime = defaultMaxRunTime,
        startupTimeout = defaultMaxStartTime,
        kubeClient = None,
        PodSpec = None,
        PodDeployed = False,
        PodName = DefaultName,
        RunID = [],
        KuberhealthyReportingURL = DefaultKuberhealthyReportingURL,
        currentCheckUUID = [],
        Debug = False,
        memory = \<lparr> envArrays = [], containerArrays = [] \<rparr> \<rparr>, None)"

text \<open>
  \<open>CurrentStatus\<close> has a pointer receiver; the record it leaves behind is returned next
  to its two results.
\<close>

definition CurrentStatus :: "checker \<Rightarrow> (bool \<times> string list) \<times> checker" where
  "CurrentStatus ext =
     (if length (ErrorMessages ext) > 0 then ((False, ErrorMessages ext), ext)
      else ((True, ErrorMessages ext), ext))"

definition Name :: "checker \<Rightarrow> string" where
  "Name ext = NamePrefix @ ''-'' @ CheckName ext"

definition CheckNamespace :: "checker \<Rightarrow> string" where
  "CheckNamespace ext = Namespace ext"

definition Interval :: "checker \<Rightarrow> Duration" where
  "Interval ext = RunInterval ext"

definition Timeout :: "checker \<Rightarrow> Duration" where
  "Timeout ext = maxRunTime ext"

definition clearErrors :: "checker \<Rightarrow> checker" where
  "clearErrors ext = ext\<lparr>ErrorMessages := []\<rparr>"

definition setError :: "checker \<Rightarrow> string \<Rightarrow> checker" where
  "setError ext s = ext\<lparr>ErrorMessages := [s]\<rparr>"

definition addError :: "checker \<Rightarrow> string \<Rightarrow> checker" where
  "addError ext s = ext\<lparr>ErrorMessages := ErrorMessages ext @ [s]\<rparr>"

definition podDeployed :: "checker \<Rightarrow> bool" where
  "podDeployed ext = PodDeployed ext"

definition setPodDeployed :: "checker \<Rightarrow> bool \<Rightarrow> checker" where
  "setPodDeployed ext status = ext\<lparr>PodDeployed := status\<rparr>"

subsection \<open>The cluster API as seen by the package\<close>

text \<open>
  The four client calls the package makes, with the namespace and the selector, name or
  pod they are given, and \<open>time.Sleep\<close> with its duration.
\<close>

datatype call =
  DeleteCollection string string
| Create string pod
| Get string string
| Watch string string
| Sleep Duration

text \<open>
  A watch answers with an error or with a result channel. The channel delivers finitely
  many events and is then either closed by the server or delivers nothing more
  (\<open>Stalled\<close>); a channel that goes on delivering events none of which lets the
  reader return is the same to the reader as a stalled one. An event carries a pod or
  some other object.
\<close>

datatype object = PodObject pod | OtherObject

record event =
  EventType :: string
  Object :: object

datatype stream_end = Closed | Stalled

datatype watch_answer = WatchError error | WatchStream "event list" stream_end

text \<open>
  The \<open>Done\<close> channel of a cancelable context, as the watchers read it: \<open>ctx i\<close>
  tells whether \<open>ctx.Done()\<close> is ready when it is looked at while event number \<open>i\<close>
  (from 0) of the stream is handled.
\<close>

type_synonym done_chan = "nat \<Rightarrow> bool"

subsection \<open>Validation and decoration of the pod spec\<close>

fun validatePodSpec_images :: "container list \<Rightarrow> error option" where
  "validatePodSpec_images [] = None"
| "validatePodSpec_images (c # cs) =
     (if length (Image c) = 0
      then Some (errors_New (''no image found in check's PodSpec for container '' @ Container_Name c @ ''.''))
      else validatePodSpec_images cs)"

definition validatePodSpec :: "checker \<Rightarrow> error option" where
  "validatePodSpec ext =
     (case PodSpec ext of
        None \<Rightarrow> Some (errors_New ''unable to determine pod spec for checker  Pod spec was nil'')
      | Some ps \<Rightarrow>
          if Len (Containers ps) = 0 \<and> Len (InitContainers ps) = 0
          then Some (errors_New ''no containers found in checks PodSpec'')
          else if Len (Containers ps) = 0
          then Some (errors_New ''no containers found in checks PodSpec'')
          else validatePodSpec_images (elems (containerArrays (memory ext)) (Containers ps)))"

text \<open>
  The body of the loop \<open>for i := range ext.PodSpec.Containers\<close> in
  \<open>configureUserPodSpec\<close>: element \<open>i\<close> of the slice \<open>cs\<close> is read from its backing
  array, \<open>append\<close> is applied to its \<open>Env\<close>, and the slice that \<open>append\<close> returns is
  stored in the \<open>Env\<close> field of that element.
\<close>

definition configureUserPodSpec_range :: "envvar list \<Rightarrow> (nat \<Rightarrow> nat \<Rightarrow> nat) \<Rightarrow> slice \<Rightarrow> nat \<Rightarrow> heap \<Rightarrow> heap" where
  "configureUserPodSpec_range overwriteEnvVars newcap cs i h =
     (let c = containerArrays h ! Array cs ! (Offset cs + i);
          (envs, env) = go_append newcap zeroEnvVar (envArrays h) (Env c) overwriteEnvVars
      in \<lparr> envArrays = envs,
           containerArrays = (containerArrays h)
             [Array cs := (containerArrays h ! Array cs)[Offset cs + i := c\<lparr>Env := env\<rparr>]] \<rparr>)"

text \<open>
  \<open>configureUserPodSpec\<close> writes through the \<open>PodSpec\<close> pointer, so it panics on a nil
  one. The loop runs over the indices of \<open>Containers\<close>. The second argument is the
  runtime's choice of capacity for a slice that \<open>append\<close> has to move.
\<close>

definition configureUserPodSpec :: "checker \<Rightarrow> (nat \<Rightarrow> nat \<Rightarrow> nat) \<Rightarrow> (checker \<times> error option) outcome" where
  "configureUserPodSpec ext newcap =
     (case PodSpec ext of
        None \<Rightarrow> Panic
      | Some ps \<Rightarrow>
          let ps = ps\<lparr>Hostname := CheckName ext\<rparr>;
              overwriteEnvVars =
                [\<lparr>EnvVar_Name = ''KUBERHEALTHY_URL'', EnvVar_Value = KuberhealthyReportingURL ext\<rparr>,
                 \<lparr>EnvVar_Name = ''KUBERHEALTHY_RUN_ID'', EnvVar_Value = currentCheckUUID ext\<rparr>];
              h = fold (configureUserPodSpec_range overwriteEnvVars newcap (Containers ps))
                    [0..<Len (Containers ps)] (memory ext);
              ps = ps\<lparr>RestartPolicy := RestartPolicyNever\<rparr>
          in Return (ext\<lparr>PodSpec := Some ps, memory := h\<rparr>, None))"

text \<open>
  \<open>addKuberhealthyLabels\<close> takes a pod pointer. For a nil pointer it fills a pod of its
  own, which the caller never sees. The label map is kept by its contents: \<open>createPod\<close>,
  the only caller, passes a pod without labels, so the map written to is the one made
  here.
\<close>

definition addKuberhealthyLabels :: "checker \<Rightarrow> pod option \<Rightarrow> pod option" where
  "addKuberhealthyLabels ext pod =
     (case pod of
        None \<Rightarrow> None
      | Some p \<Rightarrow>
          let existingLabels = (case ObjectMeta_Labels p of None \<Rightarrow> Map.empty | Some m \<Rightarrow> m);
              existingLabels = existingLabels(kuberhealthyRunIDLabel \<mapsto> currentCheckUUID ext);
              existingLabels = existingLabels(kuberhealthyCheckNameLabel \<mapsto> CheckName ext)
          in Some (p\<lparr>ObjectMeta_Labels := Some existingLabels\<rparr>))"

definition createCheckUUID :: "checker \<Rightarrow> string \<Rightarrow> checker \<times> error option" where
  "createCheckUUID ext uniqueID = (ext\<lparr>currentCheckUUID := uniqueID\<rparr>, None)"

definition sanityCheck :: "checker \<Rightarrow> error option" where
  "sanityCheck ext =
     (if Namespace ext = [] then Some (errors_New ''check namespace can not be empty'')
      else if PodName ext = [] then Some (errors_New ''pod name can not be empty'')
      else if kubeClient ext = None then Some (errors_New ''kubeClient can not be nil'')
      else None)"

subsection \<open>Calls to the API\<close>

text \<open>
  Each of these reaches the API through \<open>ext.kubeClient.CoreV1()\<close>, which dereferences
  the client. The last argument is what the API answers.
\<close>

definition deletePod :: "checker \<Rightarrow> error option \<Rightarrow> call list \<times> error option outcome" where
  "deletePod ext answer =
     (case kubeClient ext of
        None \<Rightarrow> ([], Panic)
      | Some c \<Rightarrow>
          ([DeleteCollection (Namespace ext) (kuberhealthyCheckNameLabel @ ''='' @ CheckName ext)],
           Return answer))"

definition zeroPodSpec :: podspec where
  "zeroPodSpec = \<lparr> Containers = nilSlice, InitContainers = nilSlice, Hostname = [], RestartPolicy = [],
     NodeSelector = [], Tolerations = [], Volumes = [], ServiceAccountName = [] \<rparr>"

definition zeroPod :: pod where
  "zeroPod = \<lparr> ObjectMeta_Namespace = [], ObjectMeta_Name = [], ObjectMeta_Labels = None,
     Spec = zeroPodSpec, Status = \<lparr> Phase = [], StartTime = None \<rparr> \<rparr>"

text \<open>
  \<open>createPod\<close>: \<open>Create\<close> always hands back a pod, which only feeds a log line, so its
  answer is the error alone.
\<close>

definition createPod :: "checker \<Rightarrow> error option \<Rightarrow> call list \<times> error option outcome" where
  "createPod ext answer =
     (let p = zeroPod;
          p = p\<lparr>ObjectMeta_Namespace := Namespace ext\<rparr>;
          p = p\<lparr>ObjectMeta_Name := PodName ext\<rparr>
      in case PodSpec ext of
           None \<Rightarrow> ([], Panic)
         | Some ps \<Rightarrow>
             let p = p\<lparr>Spec := ps\<rparr>
             in case addKuberhealthyLabels ext (Some p) of
                  None \<Rightarrow> ([], Panic)
                | Some p \<Rightarrow>
                    (case kubeClient ext of
                       None \<Rightarrow> ([], Panic)
                     | Some c \<Rightarrow> ([Create (Namespace ext) p], Return answer)))"

definition podExists :: "checker \<Rightarrow> error + pod \<Rightarrow> call list \<times> (bool \<times> error option) outcome" where
  "podExists ext answer =
     (case kubeClient ext of
        None \<Rightarrow> ([], Panic)
      | Some c \<Rightarrow>
          ([Get (Namespace ext) (PodName ext)],
           case answer of
             Inl err \<Rightarrow> Return (False, Some err)
           | Inr p \<Rightarrow>
               if \<not> IsZero (StartTime (Status p)) \<and> Phase (Status p) \<noteq> PodFailed
               then Return (True, None)
               else Return (False, None)))"

subsection \<open>Shutdown\<close>

text \<open>
  One round of the loop in \<open>waitForShutdown\<close>, as the function sees it through its
  argument \<open>ctx\<close> and the API: what \<open>Get\<close> answers after the sleep, and whether the
  context is done when the round looks at it. The list of rounds is the part of the
  environment that has been observed; when it is used up the loop is still polling.
\<close>

record poll =
  getAnswer :: "error + pod"
  ctxDone :: bool

fun waitForShutdown :: "checker \<Rightarrow> poll list \<Rightarrow> call list \<times> error option outcome" where
  "waitForShutdown ext [] = ([], NoReturn)"
| "waitForShutdown ext (r # rs) =
     (case podExists ext (getAnswer r) of
        (t, Panic) \<Rightarrow> (Sleep (time_Second div 2) # t, Panic)
      | (t, NoReturn) \<Rightarrow> (Sleep (time_Second div 2) # t, NoReturn)
      | (t, Return (exists, err)) \<Rightarrow>
          if err \<noteq> None then (Sleep (time_Second div 2) # t, Return err)
          else if \<not> exists then (Sleep (time_Second div 2) # t, Return None)
          else if ctxDone r
          then (Sleep (time_Second div 2) # t,
                Return (Some (errors_New ''timed out when waiting for pod to shutdown'')))
          else (case waitForShutdown ext rs of
                  (t', res) \<Rightarrow> (Sleep (time_Second div 2) # t @ t', res)))"

text \<open>
  What the environment does during \<open>Shutdown\<close>. Time is counted in nanoseconds from
  the start of \<open>Shutdown\<close>. Of each round of the shutdown loop the environment fixes
  what \<open>Get\<close> answers and the time at which the round looks at \<open>ctx.Done()\<close>.
  \<open>cancelLatency\<close> is the time the scheduler adds in the goroutine that \<open>Shutdown\<close>
  starts: before the goroutine sets its timer, and between the firing of the timer and
  the completion of \<open>cancelCtx\<close>.
\<close>

record timed_poll =
  answered :: "error + pod"
  checkedAt :: Duration

record shutdown_env =
  deleteAnswer :: "error option"
  cancelLatency :: nat
  timedPolls :: "timed_poll list"

text \<open>
  The context \<open>Shutdown\<close> makes. The goroutine waits for \<open>time.After(ext.Timeout())\<close>,
  which fires at once when the duration is not positive, and then cancels the context:
  the context is done from \<open>max 0 (ext.Timeout())\<close> plus the latency on, and not before.
\<close>

definition Shutdown_ctx :: "checker \<Rightarrow> shutdown_env \<Rightarrow> poll list" where
  "Shutdown_ctx ext w =
     map (\<lambda>r. \<lparr> getAnswer = answered r,
                ctxDone = (max 0 (Timeout ext) + int (cancelLatency w) \<le> checkedAt r) \<rparr>)
       (timedPolls w)"

definition Shutdown :: "checker \<Rightarrow> shutdown_env \<Rightarrow> call list \<times> error option outcome" where
  "Shutdown ext w =
     (if podDeployed ext then
        (case deletePod ext (deleteAnswer w) of
           (t, Panic) \<Rightarrow> (t, Panic)
         | (t, NoReturn) \<Rightarrow> (t, NoReturn)
         | (t, Return (Some err)) \<Rightarrow> (t, Return (Some err))
         | (t, Return None) \<Rightarrow>
             (case waitForShutdown ext (Shutdown_ctx ext w) of
                (t', Return (Some err)) \<Rightarrow> (t @ t', Return (Some err))
              | (t', Return None) \<Rightarrow> (t @ t', Return None)
              | (t', Panic) \<Rightarrow> (t @ t', Panic)
              | (t', NoReturn) \<Rightarrow> (t @ t', NoReturn)))
      else ([], Return None))"

subsection \<open>The two watchers\<close>

text \<open>
  The \<open>for ... range watcher.ResultChan()\<close> loop of \<open>waitForPodExit\<close>. The function
  fills a buffered channel with one value and returns the channel; the model returns
  that value. The loop runs on the caller's goroutine, so the function does not return
  before the value is there.
\<close>

fun waitForPodExit_range :: "checker \<Rightarrow> done_chan \<Rightarrow> nat \<Rightarrow> event list \<Rightarrow> stream_end \<Rightarrow> error option outcome" where
  "waitForPodExit_range ext ctx i [] Closed =
     Return (Some (errors_New ''external checker watch aborted pre-maturely''))"
| "waitForPodExit_range ext ctx i [] Stalled = NoReturn"
| "waitForPodExit_range ext ctx i (e # es) fin =
     (case Object e of
        OtherObject \<Rightarrow> waitForPodExit_range ext ctx (Suc i) es fin
      | PodObject p \<Rightarrow>
          if lookupLabel (ObjectMeta_Labels p) kuberhealthyRunIDLabel \<noteq> currentCheckUUID ext
          then waitForPodExit_range ext ctx (Suc i) es fin
          else if Phase (Status p) = PodSucceeded \<or> Phase (Status p) = PodFailed
          then Return None
          else if ctx i
          then Return (Some (errors_New ''external checker pod completion watch aborted''))
          else waitForPodExit_range ext ctx (Suc i) es fin)"

definition waitForPodExit :: "checker \<Rightarrow> done_chan \<Rightarrow> watch_answer \<Rightarrow> call list \<times> error option outcome" where
  "waitForPodExit ext ctx answer =
     (case kubeClient ext of
        None \<Rightarrow> ([], Panic)
      | Some c \<Rightarrow>
          ([Watch (Namespace ext) (kuberhealthyRunIDLabel @ ''='' @ currentCheckUUID ext)],
           case answer of
             WatchError err \<Rightarrow> Return (Some err)
           | WatchStream es fin \<Rightarrow> waitForPodExit_range ext ctx 0 es fin))"

fun waitForPodRunning_range :: "checker \<Rightarrow> done_chan \<Rightarrow> nat \<Rightarrow> event list \<Rightarrow> stream_end \<Rightarrow> error option outcome" where
  "waitForPodRunning_range ext ctx i [] Closed =
     Return (Some (errors_New ''external checker watch aborted pre-maturely''))"
| "waitForPodRunning_range ext ctx i [] Stalled = NoReturn"
| "waitForPodRunning_range ext ctx i (e # es) fin =
     (case Object e of
        OtherObject \<Rightarrow> waitForPodRunning_range ext ctx (Suc i) es fin
      | PodObject p \<Rightarrow>
          if lookupLabel (ObjectMeta_Labels p) kuberhealthyRunIDLabel \<noteq> currentCheckUUID ext
          then waitForPodRunning_range ext ctx (Suc i) es fin
          else if Phase (Status p) = PodRunning \<or> Phase (Status p) = PodFailed
          then Return None
          else if ctx i
          then Return (Some (errors_New ''external checker pod startup watch aborted''))
          else waitForPodRunning_range ext ctx (Suc i) es fin)"

definition waitForPodRunning :: "checker \<Rightarrow> done_chan \<Rightarrow> watch_answer \<Rightarrow> call list \<times> error option outcome" where
  "waitForPodRunning ext ctx answer =
     (case kubeClient ext of
        None \<Rightarrow> ([], Panic)
      | Some c \<Rightarrow>
          ([Watch (Namespace ext) (''kuberhealthy-run-id='' @ currentCheckUUID ext)],
           case answer of
             WatchError err \<Rightarrow> Return (Some err)
           | WatchStream es fin \<Rightarrow> waitForPodRunning_range ext ctx 0 es fin))"

subsection \<open>One iteration: execute\<close>

text \<open>
  A \<open>select\<close> over a timer and a watcher evaluates both channel operands on entry, in
  source order: the timer is started, then the watcher function runs to its return. The
  watcher's channel then holds a value. If the timer has not fired by then, only the
  watcher's case can proceed; if it has, both can and Go picks one of them at random.
  Whether the timer has fired and which case is picked are inputs.
\<close>

datatype select_case = TimerCase | WatcherCase

definition selectCase :: "bool \<Rightarrow> select_case \<Rightarrow> select_case" where
  "selectCase timerFired pick = (if timerFired then pick else WatcherCase)"

text \<open>
  What the environment does during one iteration. \<open>growslice\<close> is the capacity the Go
  runtime picks when \<open>append\<close> has to move a slice.
\<close>

record iteration_env =
  newUUID :: string
  growslice :: "nat \<Rightarrow> nat \<Rightarrow> nat"
  deleteStraysAnswer :: "error option"
  createAnswer :: "error option"
  watchRunningAnswer :: watch_answer
  startupTimerFired :: bool
  startupSelect :: select_case
  startupDeleteAnswer :: "error option"
  watchExitAnswer :: watch_answer
  runTimerFired :: bool
  runSelect :: select_case
  runDeleteAnswer :: "error option"

text \<open>
  The context of \<open>execute\<close> is canceled in the timer cases only, after the watcher has
  returned, so the watchers never find it done.
\<close>

definition execute_ctx :: done_chan where
  "execute_ctx = (\<lambda>i. False)"

text \<open>The second \<open>select\<close> of \<open>execute\<close> and the return after it.\<close>

definition execute_awaitExit :: "checker \<Rightarrow> iteration_env \<Rightarrow> checker \<times> call list \<times> error option outcome" where
  "execute_awaitExit ext w =
     (case waitForPodExit ext execute_ctx (watchExitAnswer w) of
        (t, Panic) \<Rightarrow> (ext, t, Panic)
      | (t, NoReturn) \<Rightarrow> (ext, t, NoReturn)
      | (t, Return received) \<Rightarrow>
          (case selectCase (runTimerFired w) (runSelect w) of
             TimerCase \<Rightarrow>
               (case deletePod ext (runDeleteAnswer w) of
                  (t', Panic) \<Rightarrow> (ext, t @ t', Panic)
                | (t', NoReturn) \<Rightarrow> (ext, t @ t', NoReturn)
                | (t', Return err) \<Rightarrow>
                    let errorMessage = ''pod ran too long and was shut down'';
                        errorMessage =
                          (case err of
                             None \<Rightarrow> errorMessage
                           | Some e \<Rightarrow> errorMessage @ '' but an error occurred when deleting the pod:'' @ Error e)
                    in (ext, t @ t', Return (Some (errors_New errorMessage))))
           | WatcherCase \<Rightarrow> (ext, t, Return None)))"

text \<open>The first \<open>select\<close> of \<open>execute\<close> and everything after it.\<close>

definition execute_awaitRunning :: "checker \<Rightarrow> iteration_env \<Rightarrow> checker \<times> call list \<times> error option outcome" where
  "execute_awaitRunning ext w =
     (case waitForPodRunning ext execute_ctx (watchRunningAnswer w) of
        (t, Panic) \<Rightarrow> (ext, t, Panic)
      | (t, NoReturn) \<Rightarrow> (ext, t, NoReturn)
      | (t, Return received) \<Rightarrow>
          (case selectCase (startupTimerFired w) (startupSelect w) of
             TimerCase \<Rightarrow>
               (case deletePod ext (startupDeleteAnswer w) of
                  (t', Panic) \<Rightarrow> (ext, t @ t', Panic)
                | (t', NoReturn) \<Rightarrow> (ext, t @ t', NoReturn)
                | (t', Return err) \<Rightarrow>
                    let errorMessage = ''failed to see pod running within timeout'';
                        errorMessage =
                          (case err of
                             None \<Rightarrow> errorMessage
                           | Some e \<Rightarrow> errorMessage @ '' and an error occurred when deleting the pod:'' @ Error e)
                    in (ext, t @ t', Return (Some (errors_New errorMessage))))
           | WatcherCase \<Rightarrow>
               (case execute_awaitExit (setPodDeployed ext True) w of
                  (ext', t', res) \<Rightarrow> (ext', t @ t', res))))"

text \<open>\<open>execute\<close> from the clean-up of stray pods on.\<close>

definition execute_deploy :: "checker \<Rightarrow> iteration_env \<Rightarrow> checker \<times> call list \<times> error option outcome" where
  "execute_deploy ext w =
     (case deletePod ext (deleteStraysAnswer w) of
        (t, Panic) \<Rightarrow> (ext, t, Panic)
      | (t, NoReturn) \<Rightarrow> (ext, t, NoReturn)
      | (t, Return (Some err)) \<Rightarrow>
          (ext, t, Return (Some (errors_New
             (''failed to clean up pods before starting external checker: '' @ Error err))))
      | (t, Return None) \<Rightarrow>
          (case createPod ext (createAnswer w) of
             (t', Panic) \<Rightarrow> (ext, t @ t', Panic)
           | (t', NoReturn) \<Rightarrow> (ext, t @ t', NoReturn)
           | (t', Return (Some err)) \<Rightarrow>
               (ext, t @ t', Return (Some (errors_New
                  (''failed to create pod for checker: '' @ Error err))))
           | (t', Return None) \<Rightarrow>
               (case execute_awaitRunning ext w of
                  (ext', t'', res) \<Rightarrow> (ext', t @ t' @ t'', res))))"

definition execute :: "checker \<Rightarrow> Clientset option \<Rightarrow> iteration_env \<Rightarrow> checker \<times> call list \<times> error option outcome" where
  "execute ext client w =
     (let ext = ext\<lparr>kubeClient := client\<rparr> in
      case createCheckUUID ext (newUUID w) of
        (ext, Some err) \<Rightarrow> (ext, [], Return (Some err))
      | (ext, None) \<Rightarrow>
          (case validatePodSpec ext of
             Some err \<Rightarrow> (ext, [], Return (Some err))
           | None \<Rightarrow>
               (case configureUserPodSpec ext (growslice w) of
                  Panic \<Rightarrow> (ext, [], Panic)
                | NoReturn \<Rightarrow> (ext, [], NoReturn)
                | Return (ext, Some err) \<Rightarrow>
                    (ext, [], Return (Some (errors_New
                       (''failed to configure pod spec for Kubernetes from user specified pod spec: '' @ Error err))))
                | Return (ext, None) \<Rightarrow>
                    (case sanityCheck ext of
                       Some err \<Rightarrow> (ext, [], Return (Some err))
                     | None \<Rightarrow> execute_deploy ext w))))"

subsection \<open>The periodic driver: Run\<close>

text \<open>
  One pass through the body of the loop in \<open>Run\<close>, up to the test of \<open>Debug\<close> at its end.
\<close>

definition Run_iteration :: "checker \<Rightarrow> Clientset option \<Rightarrow> iteration_env \<Rightarrow> checker \<times> call list \<times> unit outcome" where
  "Run_iteration ext client w =
     (let slept = (if \<not> Debug ext then [Sleep (Interval ext)] else []) in
      case execute ext client w of
        (ext, t, Panic) \<Rightarrow> (ext, slept @ t, Panic)
      | (ext, t, NoReturn) \<Rightarrow> (ext, slept @ t, NoReturn)
      | (ext, t, Return err) \<Rightarrow>
          (case err of
             Some e \<Rightarrow> (setError ext (Error e), slept @ t, Return ())
           | None \<Rightarrow> (ext, slept @ t, Return ())))"

text \<open>
  \<open>Run\<close> on the environments of the first iterations. Outside debug mode the loop has
  no exit: once the listed iterations are done the result is \<open>NoReturn\<close>, next to the
  checker as a status query finds it then.
\<close>

fun Run :: "checker \<Rightarrow> Clientset option \<Rightarrow> iteration_env list \<Rightarrow> checker \<times> call list \<times> error option outcome" where
  "Run ext client [] = (ext, [], NoReturn)"
| "Run ext client (w # ws) =
     (case Run_iteration ext client w of
        (ext', t, Panic) \<Rightarrow> (ext', t, Panic)
      | (ext', t, NoReturn) \<Rightarrow> (ext', t, NoReturn)
      | (ext', t, Return u) \<Rightarrow>
          if Debug ext' then (ext', t, Return None)
          else (case Run ext' client ws of (ext'', t', res) \<Rightarrow> (ext'', t @ t', res)))"

subsection \<open>Auxiliary notions used in the statements\<close>

text \<open>
  A pod is absent from the API when \<open>Get\<close> answers with a not-found error. It is
  reported up when \<open>Get\<close> hands back a pod that has a start time and has not failed,
  which is the test \<open>podExists\<close> makes.
\<close>

fun absentFromAPI :: "error + pod \<Rightarrow> bool" where
  "absentFromAPI (Inl (StatusError StatusReasonNotFound m)) = True"
| "absentFromAPI a = False"

fun reportedUp :: "error + pod \<Rightarrow> bool" where
  "reportedUp (Inl err) = False"
| "reportedUp (Inr p) = (\<not> IsZero (StartTime (Status p)) \<and> Phase (Status p) \<noteq> PodFailed)"

text \<open>The calls of \<open>n\<close> rounds of the shutdown loop.\<close>

definition pollCalls :: "checker \<Rightarrow> nat \<Rightarrow> call list" where
  "pollCalls ext n = concat (replicate n [Sleep 500000000, Get (Namespace ext) (PodName ext)])"

fun callName :: "call \<Rightarrow> string" where
  "callName (DeleteCollection ns sel) = ''DeleteCollection''"
| "callName (Create ns p) = ''Create''"
| "callName (Get ns n) = ''Get''"
| "callName (Watch ns sel) = ''Watch''"
| "callName (Sleep d) = ''Sleep''"


text \<open>
  A stretch of events, starting at position \<open>i\<close>, through which the loop of
  \<open>waitForPodRunning\<close> keeps reading: no event carries the pod of this run in phase
  Running or Failed, and none that carries it finds the context done.
\<close>

fun startupQuiet :: "checker \<Rightarrow> done_chan \<Rightarrow> nat \<Rightarrow> event list \<Rightarrow> bool" where
  "startupQuiet ext ctx i [] = True"
| "startupQuiet ext ctx i (e # es) =
     ((case Object e of
         OtherObject \<Rightarrow> True
       | PodObject p \<Rightarrow>
           lookupLabel (ObjectMeta_Labels p) kuberhealthyRunIDLabel \<noteq> currentCheckUUID ext \<or>
           (Phase (Status p) \<noteq> PodRunning \<and> Phase (Status p) \<noteq> PodFailed \<and> \<not> ctx i))
      \<and> startupQuiet ext ctx (Suc i) es)"














subsection \<open>Concrete checkers and environments\<close>

definition envFOO :: envvar where
  "envFOO = \<lparr>EnvVar_Name = ''FOO'', EnvVar_Value = ''bar''\<rparr>"

definition envBAR :: envvar where
  "envBAR = \<lparr>EnvVar_Name = ''BAR'', EnvVar_Value = ''baz''\<rparr>"



text \<open>
  A template with one container, whose \<open>Env\<close> holds \<open>FOO\<close> and fills its backing array.
\<close>

definition exampleContainer :: container where
  "exampleContainer = \<lparr> Container_Name = ''check'', Image = ''echo:latest'',
     Command = [''/bin/check''], Args = [''-v''],
     Env = \<lparr>Array = 0, Offset = 0, Len = 1, Cap = 1\<rparr>,
     Resources = [(''cpu'', ''100m'')] \<rparr>"

definition exampleSpec :: podspec where
  "exampleSpec = \<lparr> Containers = \<lparr>Array = 0, Offset = 0, Len = 1, Cap = 1\<rparr>,
     InitContainers = nilSlice,
     Hostname = [], RestartPolicy = RestartPolicyAlways,
     NodeSelector = [(''disk'', ''ssd'')], Tolerations = [''spot''],
     Volumes = [''data''], ServiceAccountName = ''checker'' \<rparr>"

definition exampleMemory :: heap where
  "exampleMemory = \<lparr> envArrays = [[envFOO]], containerArrays = [[exampleContainer]] \<rparr>"

text \<open>A checker as \<open>New\<close> makes it, with that pod template attached.\<close>

definition exampleChecker :: checker where
  "exampleChecker = (fst (New ''kuberhealthy''))\<lparr>PodSpec := Some exampleSpec, memory := exampleMemory\<rparr>"

text \<open>A runtime that doubles the capacity of a slice it has to move.\<close>

definition doubling :: "nat \<Rightarrow> nat \<Rightarrow> nat" where
  "doubling oldcap needed = 2 * oldcap"







text \<open>The example checker while its pod is deployed.\<close>

definition deployedChecker :: checker where
  "deployedChecker = exampleChecker\<lparr>kubeClient := Some Clientset, PodDeployed := True\<rparr>"

definition runningPod :: pod where
  "runningPod = zeroPod\<lparr>ObjectMeta_Namespace := ''kuberhealthy'', ObjectMeta_Name := ''external-check'',
     Status := \<lparr>Phase = PodRunning, StartTime = Some 1572775200000000000\<rparr>\<rparr>"

definition failedPod :: pod where
  "failedPod = runningPod\<lparr>Status := \<lparr>Phase = PodFailed, StartTime = Some 1572775200000000000\<rparr>\<rparr>"

definition unstartedPod :: pod where
  "unstartedPod = runningPod\<lparr>Status := \<lparr>Phase = PodPending, StartTime = None\<rparr>\<rparr>"

definition notFound :: error where
  "notFound = StatusError StatusReasonNotFound ''pods \"external-check\" not found''"

text \<open>
  Shutdown: the pod has failed and is still in the API at the first poll, half a second
  after the start.
\<close>

definition presentEnv :: shutdown_env where
  "presentEnv = \<lparr>deleteAnswer = None, cancelLatency = 0,
     timedPolls = [\<lparr>answered = Inr failedPod, checkedAt = 500000000\<rparr>]\<rparr>"

text \<open>Shutdown: the pod is gone from the API at the first poll.\<close>

definition goneEnv :: shutdown_env where
  "goneEnv = \<lparr>deleteAnswer = None, cancelLatency = 0,
     timedPolls = [\<lparr>answered = Inl notFound, checkedAt = 500000000\<rparr>]\<rparr>"

text \<open>Shutdown: the pod is seen running twice and failed at the third poll.\<close>

definition slowEnv :: shutdown_env where
  "slowEnv = \<lparr>deleteAnswer = None, cancelLatency = 0,
     timedPolls = [\<lparr>answered = Inr runningPod, checkedAt = 500000000\<rparr>,
                   \<lparr>answered = Inr runningPod, checkedAt = 1000000000\<rparr>,
                   \<lparr>answered = Inr failedPod, checkedAt = 1500000000\<rparr>]\<rparr>"

text \<open>
  Shutdown: the pod is running at a poll half a second after the start and still
  running at a poll 15 minutes and one second after the start.
\<close>

definition timeoutEnv :: shutdown_env where
  "timeoutEnv = \<lparr>deleteAnswer = None, cancelLatency = 1000,
     timedPolls = [\<lparr>answered = Inr runningPod, checkedAt = 500000000\<rparr>,
                   \<lparr>answered = Inr runningPod, checkedAt = 901000000000\<rparr>]\<rparr>"

text \<open>Shutdown: the delete is refused.\<close>

definition refusedEnv :: shutdown_env where
  "refusedEnv = \<lparr>deleteAnswer = Some (StatusError StatusReasonUnknown ''connection refused''),
     cancelLatency = 0, timedPolls = []\<rparr>"

text \<open>The pod of run \<open>uuid\<close> as a watch shows it.\<close>

definition checkPod :: "string \<Rightarrow> string \<Rightarrow> pod" where
  "checkPod uuid phase = zeroPod\<lparr>ObjectMeta_Namespace := ''kuberhealthy'',
     ObjectMeta_Name := ''external-check'',
     ObjectMeta_Labels := Some [kuberhealthyRunIDLabel \<mapsto> uuid, kuberhealthyCheckNameLabel \<mapsto> ''external-check''],
     Status := \<lparr>Phase = phase, StartTime = None\<rparr>\<rparr>"

text \<open>
  An iteration in which everything goes well: the pod is seen pending, then running,
  then succeeded, each before its timer fires.
\<close>

definition cleanRun :: iteration_env where
  "cleanRun = \<lparr> newUUID = ''run-2'',
     growslice = doubling,
     deleteStraysAnswer = None,
     createAnswer = None,
     watchRunningAnswer = WatchStream
       [\<lparr>EventType = ''ADDED'', Object = PodObject (checkPod ''run-2'' PodPending)\<rparr>,
        \<lparr>EventType = ''MODIFIED'', Object = PodObject (checkPod ''run-2'' PodRunning)\<rparr>] Closed,
     startupTimerFired = False,
     startupSelect = WatcherCase,
     startupDeleteAnswer = None,
     watchExitAnswer = WatchStream
       [\<lparr>EventType = ''MODIFIED'', Object = PodObject (checkPod ''run-2'' PodSucceeded)\<rparr>] Closed,
     runTimerFired = False,
     runSelect = WatcherCase,
     runDeleteAnswer = None \<rparr>"

text \<open>An iteration in which the clean-up of stray pods is refused by the API.\<close>

definition failedCleanup :: iteration_env where
  "failedCleanup = cleanRun\<lparr> newUUID := ''run-1'',
     deleteStraysAnswer := Some (StatusError StatusReasonUnknown ''connection refused'') \<rparr>"

text \<open>An iteration in which the first watch is closed before it has delivered an event.\<close>

definition emptyWatch :: iteration_env where
  "emptyWatch = cleanRun\<lparr> watchRunningAnswer := WatchStream [] Closed \<rparr>"

text \<open>
  Two iterations in which the pod stays pending beyond the startup timeout. In the
  first the watch delivers the pending pod and then nothing more. In the second the pod
  is seen running only after the timer has fired, and the \<open>select\<close>, with both cases
  ready, picks the watcher's.
\<close>

definition stalledStart :: iteration_env where
  "stalledStart = cleanRun\<lparr>
     watchRunningAnswer := WatchStream
       [\<lparr>EventType = ''ADDED'', Object = PodObject (checkPod ''run-2'' PodPending)\<rparr>] Stalled,
     startupTimerFired := True,
     startupSelect := TimerCase \<rparr>"

definition lateStart :: iteration_env where
  "lateStart = cleanRun\<lparr>
     watchRunningAnswer := WatchStream
       [\<lparr>EventType = ''ADDED'', Object = PodObject (checkPod ''run-2'' PodPending)\<rparr>,
        \<lparr>EventType = ''MODIFIED'', Object = PodObject (checkPod ''run-2'' PodRunning)\<rparr>] Closed,
     startupTimerFired := True,
     startupSelect := WatcherCase \<rparr>"

lemmas example_defs = exampleChecker_def New_def exampleSpec_def exampleContainer_def
  exampleMemory_def envFOO_def envBAR_def zeroEnvVar_def nilSlice_def doubling_def
  cleanRun_def failedCleanup_def emptyWatch_def stalledStart_def lateStart_def
  checkPod_def zeroPod_def zeroPodSpec_def
  DefaultName_def DefaultKuberhealthyReportingURL_def defaultRunInterval_def defaultMaxRunTime_def
  defaultMaxStartTime_def

lemmas execute_defs = execute_def execute_deploy_def execute_awaitRunning_def execute_awaitExit_def
  createCheckUUID_def validatePodSpec_def configureUserPodSpec_def configureUserPodSpec_range_def
  go_append_def elems_def sanityCheck_def deletePod_def
  createPod_def addKuberhealthyLabels_def waitForPodRunning_def waitForPodExit_def selectCase_def
  setPodDeployed_def execute_ctx_def lookupLabel_def errors_New_def Let_def
  kuberhealthyRunIDLabel_def kuberhealthyCheckNameLabel_def
  PodPending_def PodRunning_def PodSucceeded_def PodFailed_def

section \<open>Properties\<close>

subsection \<open>Construction and status\<close>

text \<open>
  C9: a checker made by \<open>New\<close> has a run interval of 10 minutes, a startup timeout of
  5 minutes and a maximum run time of 15 minutes (in nanoseconds below), the reporting
  URL \<open>http://kuberhealthy.kuberhealthy.svc.local\<close> and the check name
  \<open>external-check\<close>; \<open>New\<close> returns no error; and the exposed name of any checker is
  \<open>external-check-\<close> followed by its check name.
\<close>

theorem New_defaults:
  "snd (New ns) = None \<and>
   RunInterval (fst (New ns)) = 600000000000 \<and>
   startupTimeout (fst (New ns)) = 300000000000 \<and>
   maxRunTime (fst (New ns)) = 900000000000 \<and>
   RunInterval (fst (New ns)) = 10 * time_Minute \<and>
   startupTimeout (fst (New ns)) = 5 * time_Minute \<and>
   maxRunTime (fst (New ns)) = 15 * time_Minute \<and>
   KuberhealthyReportingURL (fst (New ns)) = ''http://kuberhealthy.kuberhealthy.svc.local'' \<and>
   CheckName (fst (New ns)) = ''external-check'' \<and>
   Name (fst (New ns)) = ''external-check-external-check'' \<and>
   Name ext = ''external-check-'' @ CheckName ext"
  by (simp add: New_def defaultRunInterval_def defaultMaxRunTime_def defaultMaxStartTime_def
      time_Minute_def time_Second_def time_Millisecond_def time_Microsecond_def time_Nanosecond_def
      DefaultKuberhealthyReportingURL_def DefaultName_def Name_def NamePrefix_def)

text \<open>
  C7: the status query returns OK with an empty list exactly when the error buffer is
  empty, and Failing with the error buffer otherwise; the checker is the same after the
  query as before.
\<close>

theorem CurrentStatus_snapshot:
  "(ErrorMessages ext = [] \<longrightarrow> CurrentStatus ext = ((True, []), ext)) \<and>
   (ErrorMessages ext \<noteq> [] \<longrightarrow> CurrentStatus ext = ((False, ErrorMessages ext), ext)) \<and>
   (fst (fst (CurrentStatus ext)) \<longleftrightarrow> ErrorMessages ext = []) \<and>
   snd (CurrentStatus ext) = ext"
  by (simp add: CurrentStatus_def)

text \<open>The query on a fresh checker and on one that holds an error.\<close>

theorem CurrentStatus_snapshot_witness:
  "ErrorMessages exampleChecker = [] \<and>
   CurrentStatus exampleChecker = ((True, []), exampleChecker) \<and>
   ErrorMessages (setError exampleChecker ''boom'') \<noteq> [] \<and>
   CurrentStatus (setError exampleChecker ''boom'') =
     ((False, [''boom'']), setError exampleChecker ''boom'')"
  using CurrentStatus_snapshot [of exampleChecker]
    CurrentStatus_snapshot [of "setError exampleChecker ''boom''"]
  by (simp add: exampleChecker_def New_def setError_def)

subsection \<open>Validation\<close>

lemma validatePodSpec_images_None:
  "validatePodSpec_images cs = None \<longleftrightarrow> (\<forall>c \<in> set cs. Image c \<noteq> [])"
  by (induction cs) auto


text \<open>
  C5: \<open>validatePodSpec\<close> returns an error if and only if the pod template is nil, its
  container list is empty, or one of its containers has an empty image; on every other
  template it returns nil.
\<close>

theorem validatePodSpec_invalid_iff:
  "(validatePodSpec ext \<noteq> None) \<longleftrightarrow>
     (PodSpec ext = None \<or>
      (\<exists>ps. PodSpec ext = Some ps \<and>
         (Len (Containers ps) = 0 \<or>
          (\<exists>c \<in> set (elems (containerArrays (memory ext)) (Containers ps)). Image c = []))))"
proof (cases "PodSpec ext")
  case None
  then show ?thesis by (simp add: validatePodSpec_def)
next
  case (Some ps)
  show ?thesis
  proof (cases "Len (Containers ps) = 0")
    case True
    with Some show ?thesis by (simp add: validatePodSpec_def)
  next
    case False
    have "validatePodSpec ext = validatePodSpec_images (elems (containerArrays (memory ext)) (Containers ps))"
      using Some False by (simp add: validatePodSpec_def)
    with Some False show ?thesis
      using validatePodSpec_images_None [of "elems (containerArrays (memory ext)) (Containers ps)"] by auto
  qed
qed

text \<open>
  A valid template, no template, a template without containers, and a template whose
  second container has no image.
\<close>

theorem validatePodSpec_invalid_iff_witness:
  "validatePodSpec exampleChecker = None \<and>
   validatePodSpec (exampleChecker\<lparr>PodSpec := None\<rparr>) \<noteq> None \<and>
   validatePodSpec (exampleChecker\<lparr>PodSpec := Some (exampleSpec\<lparr>Containers := nilSlice\<rparr>)\<rparr>) \<noteq> None \<and>
   validatePodSpec (exampleChecker\<lparr>
      PodSpec := Some (exampleSpec\<lparr>Containers := \<lparr>Array = 0, Offset = 0, Len = 2, Cap = 2\<rparr>\<rparr>),
      memory := exampleMemory\<lparr>containerArrays :=
        [[exampleContainer, exampleContainer\<lparr>Image := []\<rparr>]]\<rparr>\<rparr>) \<noteq> None"
  using validatePodSpec_invalid_iff [of exampleChecker]
    validatePodSpec_invalid_iff [of "exampleChecker\<lparr>PodSpec := None\<rparr>"]
    validatePodSpec_invalid_iff [of "exampleChecker\<lparr>PodSpec := Some (exampleSpec\<lparr>Containers := nilSlice\<rparr>)\<rparr>"]
    validatePodSpec_invalid_iff [of "exampleChecker\<lparr>
      PodSpec := Some (exampleSpec\<lparr>Containers := \<lparr>Array = 0, Offset = 0, Len = 2, Cap = 2\<rparr>\<rparr>),
      memory := exampleMemory\<lparr>containerArrays :=
        [[exampleContainer, exampleContainer\<lparr>Image := []\<rparr>]]\<rparr>\<rparr>"]
  by (simp add: exampleChecker_def New_def exampleSpec_def exampleContainer_def exampleMemory_def
      nilSlice_def elems_def)

subsection \<open>Slices and the loop over the containers\<close>























subsection \<open>Decoration\<close>


lemma addKuberhealthyLabels_Some:
  "addKuberhealthyLabels ext (Some p) =
     Some (p\<lparr>ObjectMeta_Labels := Some ((case ObjectMeta_Labels p of None \<Rightarrow> Map.empty | Some m \<Rightarrow> m)
        (kuberhealthyRunIDLabel \<mapsto> currentCheckUUID ext, kuberhealthyCheckNameLabel \<mapsto> CheckName ext))\<rparr>)"
  by (simp add: addKuberhealthyLabels_def Let_def)











text \<open>
  The pod that \<open>createPod\<close> hands to the API: in the namespace and under the pod name of
  the checker, with the template as its spec and with the two labels.
\<close>

lemma createPod_call:
  assumes "PodSpec ext = Some ps" "kubeClient ext = Some c"
  shows "\<exists>p. createPod ext answer = ([Create (Namespace ext) p], Return answer) \<and>
     ObjectMeta_Namespace p = Namespace ext \<and> ObjectMeta_Name p = PodName ext \<and> Spec p = ps \<and>
     lookupLabel (ObjectMeta_Labels p) ''kuberhealthy-check-name'' = CheckName ext \<and>
     lookupLabel (ObjectMeta_Labels p) ''kuberhealthy-run-id'' = currentCheckUUID ext"
  using assms
  by (simp add: createPod_def addKuberhealthyLabels_Some lookupLabel_def zeroPod_def Let_def
      kuberhealthyRunIDLabel_def kuberhealthyCheckNameLabel_def)

subsection \<open>Shutdown\<close>

text \<open>
  C10: with a client set, \<open>podExists\<close> makes one \<open>Get\<close> for the pod name and reports the
  pod as existing only when the \<open>Get\<close> hands back a pod with a start time that is not
  zero and a phase other than Failed. A pod that has failed or has no start time is
  reported as not existing, without error, although it is in the API, and the shutdown
  loop then returns nil. Every error of \<open>Get\<close>, a not-found error for a deleted pod
  included, is returned as the error of \<open>podExists\<close>, and the shutdown loop returns it.
\<close>

theorem podExists_report:
  assumes "kubeClient ext = Some c"
  shows "fst (podExists ext answer) = [Get (Namespace ext) (PodName ext)] \<and>
     ((\<exists>err. snd (podExists ext answer) = Return (True, err)) \<longleftrightarrow>
        (\<exists>p. answer = Inr p \<and> \<not> IsZero (StartTime (Status p)) \<and> Phase (Status p) \<noteq> ''Failed'')) \<and>
     (\<forall>p. answer = Inr p \<and> (Phase (Status p) = ''Failed'' \<or> IsZero (StartTime (Status p))) \<longrightarrow>
        snd (podExists ext answer) = Return (False, None) \<and>
        snd (waitForShutdown ext (\<lparr>getAnswer = answer, ctxDone = d\<rparr> # rs)) = Return None) \<and>
     (\<forall>err. answer = Inl err \<longrightarrow>
        snd (podExists ext answer) = Return (False, Some err) \<and>
        snd (waitForShutdown ext (\<lparr>getAnswer = answer, ctxDone = d\<rparr> # rs)) = Return (Some err))"
  using assms by (cases answer) (auto simp: podExists_def PodFailed_def)

text \<open>A deleted pod, a failed pod, a pod that has not started and a running pod.\<close>

theorem podExists_report_witness:
  "kubeClient deployedChecker = Some Clientset \<and>
   absentFromAPI (Inl notFound) \<and>
   snd (podExists deployedChecker (Inl notFound)) = Return (False, Some notFound) \<and>
   snd (waitForShutdown deployedChecker [\<lparr>getAnswer = Inl notFound, ctxDone = False\<rparr>]) =
     Return (Some notFound) \<and>
   snd (podExists deployedChecker (Inr failedPod)) = Return (False, None) \<and>
   snd (podExists deployedChecker (Inr unstartedPod)) = Return (False, None) \<and>
   (\<exists>err. snd (podExists deployedChecker (Inr runningPod)) = Return (True, err))"
proof -
  have c: "kubeClient deployedChecker = Some Clientset"
    by (simp add: deployedChecker_def)
  have "Phase (Status failedPod) = ''Failed''" "IsZero (StartTime (Status unstartedPod))"
    "\<not> IsZero (StartTime (Status runningPod))" "Phase (Status runningPod) \<noteq> ''Failed''"
    "absentFromAPI (Inl notFound)"
    by (simp_all add: failedPod_def unstartedPod_def runningPod_def PodFailed_def PodRunning_def
        notFound_def)
  then show ?thesis
    using c podExists_report [OF c, of "Inl notFound" False "[]"]
      podExists_report [OF c, of "Inr failedPod"]
      podExists_report [OF c, of "Inr unstartedPod"]
      podExists_report [OF c, of "Inr runningPod"]
    by auto
qed

lemma half_second: "time_Second div 2 = 500000000"
  by (simp add: time_Second_def time_Millisecond_def time_Microsecond_def time_Nanosecond_def)

lemma waitForShutdown_up:
  assumes "kubeClient ext = Some c" "reportedUp (getAnswer r)"
  shows "waitForShutdown ext (r # rs) =
     (if ctxDone r
      then ([Sleep 500000000, Get (Namespace ext) (PodName ext)],
            Return (Some (errorString ''timed out when waiting for pod to shutdown'')))
      else ([Sleep 500000000, Get (Namespace ext) (PodName ext)] @ fst (waitForShutdown ext rs),
            snd (waitForShutdown ext rs)))"
proof (cases "getAnswer r")
  case (Inl err)
  with assms show ?thesis by simp
next
  case (Inr p)
  with assms show ?thesis
    by (simp add: podExists_def half_second errors_New_def split: prod.splits)
qed

lemma waitForShutdown_down:
  assumes "kubeClient ext = Some c" "getAnswer r = Inr p"
    "IsZero (StartTime (Status p)) \<or> Phase (Status p) = PodFailed"
  shows "waitForShutdown ext (r # rs) =
     ([Sleep 500000000, Get (Namespace ext) (PodName ext)], Return None)"
  using assms by (auto simp: podExists_def half_second)

text \<open>
  Rounds that find the pod up and the context not done only add their calls; the loop
  goes on with the rounds after them.
\<close>

lemma waitForShutdown_rounds:
  assumes "kubeClient ext = Some c" "\<forall>q \<in> set pre. reportedUp (getAnswer q) \<and> \<not> ctxDone q"
  shows "waitForShutdown ext (pre @ rs) =
     (pollCalls ext (length pre) @ fst (waitForShutdown ext rs), snd (waitForShutdown ext rs))"
  using assms(2)
proof (induction pre)
  case Nil
  show ?case by (simp add: pollCalls_def)
next
  case (Cons q pre)
  then have q: "reportedUp (getAnswer q)" "\<not> ctxDone q" and
    IH: "waitForShutdown ext (pre @ rs) =
     (pollCalls ext (length pre) @ fst (waitForShutdown ext rs), snd (waitForShutdown ext rs))"
    by simp_all
  show ?case
    using waitForShutdown_up [OF assms(1) q(1), of "pre @ rs"] q(2) IH
    by (simp add: pollCalls_def)
qed

lemma pollCalls_Suc:
  "pollCalls ext n @ [Sleep 500000000, Get (Namespace ext) (PodName ext)] = pollCalls ext (Suc n)"
  by (induction n) (simp_all add: pollCalls_def)


text \<open>
  While \<open>Get\<close> hands back a pod and the context is not done, the loop returns nil or
  goes on.
\<close>

lemma waitForShutdown_no_timeout:
  assumes "kubeClient ext = Some c"
    and "\<forall>q \<in> set rs. (\<exists>p. getAnswer q = Inr p) \<and> \<not> ctxDone q"
  shows "snd (waitForShutdown ext rs) = Return None \<or> snd (waitForShutdown ext rs) = NoReturn"
  using assms(2)
proof (induction rs)
  case Nil
  show ?case by simp
next
  case (Cons r rs)
  then obtain p where p: "getAnswer r = Inr p" and nd: "\<not> ctxDone r"
    and IH: "snd (waitForShutdown ext rs) = Return None \<or> snd (waitForShutdown ext rs) = NoReturn"
    by auto
  show ?case
  proof (cases "reportedUp (getAnswer r)")
    case True
    with waitForShutdown_up [OF assms(1) True, of rs] nd IH show ?thesis by simp
  next
    case False
    with p have "IsZero (StartTime (Status p)) \<or> Phase (Status p) = PodFailed" by auto
    from waitForShutdown_down [OF assms(1) p this, of rs] show ?thesis by simp
  qed
qed

lemma Shutdown_deployed:
  assumes "PodDeployed ext" "kubeClient ext = Some c"
  shows "Shutdown ext w =
    (case deleteAnswer w of
       Some err \<Rightarrow>
         ([DeleteCollection (Namespace ext) (''kuberhealthy-check-name='' @ CheckName ext)],
          Return (Some err))
     | None \<Rightarrow>
         (DeleteCollection (Namespace ext) (''kuberhealthy-check-name='' @ CheckName ext)
            # fst (waitForShutdown ext (Shutdown_ctx ext w)),
          snd (waitForShutdown ext (Shutdown_ctx ext w))))"
  using assms
  by (cases "waitForShutdown ext (Shutdown_ctx ext w)")
     (auto simp: Shutdown_def podDeployed_def deletePod_def kuberhealthyCheckNameLabel_def
       split: option.splits outcome.splits)

text \<open>
  C2, as the code has it: when the pod-deployed flag is false, \<open>Shutdown\<close> returns nil
  without any call. When it is true (and the API client is set), \<open>Shutdown\<close> issues the
  delete by selector and returns the error of the delete if there is one; otherwise it
  polls, sleeping 500 ms before each \<open>Get\<close> of the pod name. The context is canceled
  when the max run time, and the latency of the canceling goroutine, have passed since
  the start of \<open>Shutdown\<close>. After rounds that found the pod started and not failed
  before that moment, \<open>Shutdown\<close> returns nil in the first round whose \<open>Get\<close> hands back
  a pod without a start time or in phase Failed (a pod that is still in the API), and
  it returns the error \<open>timed out when waiting for pod to shutdown\<close> in the first round
  that finds the pod started and not failed at or after that moment. As long as every
  round gets a pod and looks at the context before the max run time has passed,
  \<open>Shutdown\<close> returns nil or is still polling. What it returns when \<open>Get\<close> fails is not
  part of this statement.
\<close>

theorem Shutdown_contract:
  "(\<not> PodDeployed ext \<longrightarrow> Shutdown ext w = ([], Return None)) \<and>
   (PodDeployed ext \<and> kubeClient ext = Some c \<longrightarrow>
      (deleteAnswer w = Some err \<longrightarrow>
         Shutdown ext w =
           ([DeleteCollection (Namespace ext) (''kuberhealthy-check-name='' @ CheckName ext)],
            Return (Some err))) \<and>
      (deleteAnswer w = None \<and> timedPolls w = pre @ r # rest \<and>
       (\<forall>q \<in> set pre. reportedUp (answered q) \<and>
          checkedAt q < max 0 (maxRunTime ext) + int (cancelLatency w)) \<longrightarrow>
         (answered r = Inr p \<and> (IsZero (StartTime (Status p)) \<or> Phase (Status p) = ''Failed'') \<longrightarrow>
            Shutdown ext w =
              (DeleteCollection (Namespace ext) (''kuberhealthy-check-name='' @ CheckName ext)
                 # pollCalls ext (Suc (length pre)), Return None)) \<and>
         (reportedUp (answered r) \<and> max 0 (maxRunTime ext) + int (cancelLatency w) \<le> checkedAt r \<longrightarrow>
            Shutdown ext w =
              (DeleteCollection (Namespace ext) (''kuberhealthy-check-name='' @ CheckName ext)
                 # pollCalls ext (Suc (length pre)),
               Return (Some (errorString ''timed out when waiting for pod to shutdown''))))) \<and>
      (deleteAnswer w = None \<and>
       (\<forall>q \<in> set (timedPolls w). (\<exists>p. answered q = Inr p) \<and> checkedAt q < maxRunTime ext) \<longrightarrow>
         snd (Shutdown ext w) = Return None \<or> snd (Shutdown ext w) = NoReturn))"
proof (intro conjI impI)
  assume "\<not> PodDeployed ext"
  then show "Shutdown ext w = ([], Return None)"
    by (simp add: Shutdown_def podDeployed_def)
next
  assume "PodDeployed ext \<and> kubeClient ext = Some c" "deleteAnswer w = Some err"
  then show "Shutdown ext w =
           ([DeleteCollection (Namespace ext) (''kuberhealthy-check-name='' @ CheckName ext)],
            Return (Some err))"
    using Shutdown_deployed [of ext c w] by simp
next
  assume dep: "PodDeployed ext \<and> kubeClient ext = Some c"
    and env: "deleteAnswer w = None \<and> timedPolls w = pre @ r # rest \<and>
       (\<forall>q \<in> set pre. reportedUp (answered q) \<and>
          checkedAt q < max 0 (maxRunTime ext) + int (cancelLatency w))"
    and r: "answered r = Inr p \<and> (IsZero (StartTime (Status p)) \<or> Phase (Status p) = ''Failed'')"
  define ctx :: "timed_poll \<Rightarrow> poll" where "ctx = (\<lambda>q. \<lparr> getAnswer = answered q,
      ctxDone = (max 0 (Timeout ext) + int (cancelLatency w) \<le> checkedAt q) \<rparr>)"
  from dep have c: "kubeClient ext = Some c" by simp
  from env have ctxs: "Shutdown_ctx ext w = map ctx pre @ ctx r # map ctx rest"
    by (simp add: Shutdown_ctx_def ctx_def)
  from env have up: "\<forall>q \<in> set (map ctx pre). reportedUp (getAnswer q) \<and> \<not> ctxDone q"
    by (auto simp: ctx_def Timeout_def)
  from r have "waitForShutdown ext (ctx r # map ctx rest) =
     ([Sleep 500000000, Get (Namespace ext) (PodName ext)], Return None)"
    using waitForShutdown_down [OF c, of "ctx r" p "map ctx rest"] by (simp add: PodFailed_def ctx_def)
  then have "waitForShutdown ext (Shutdown_ctx ext w) = (pollCalls ext (Suc (length pre)), Return None)"
    using waitForShutdown_rounds [OF c up, of "ctx r # map ctx rest"] ctxs
      pollCalls_Suc [of ext "length pre"]
    by simp
  then show "Shutdown ext w =
                (DeleteCollection (Namespace ext) (''kuberhealthy-check-name='' @ CheckName ext)
                   # pollCalls ext (Suc (length pre)), Return None)"
    using Shutdown_deployed [of ext c w] dep env by simp
next
  assume dep: "PodDeployed ext \<and> kubeClient ext = Some c"
    and env: "deleteAnswer w = None \<and> timedPolls w = pre @ r # rest \<and>
       (\<forall>q \<in> set pre. reportedUp (answered q) \<and>
          checkedAt q < max 0 (maxRunTime ext) + int (cancelLatency w))"
    and r: "reportedUp (answered r) \<and> max 0 (maxRunTime ext) + int (cancelLatency w) \<le> checkedAt r"
  define ctx :: "timed_poll \<Rightarrow> poll" where "ctx = (\<lambda>q. \<lparr> getAnswer = answered q,
      ctxDone = (max 0 (Timeout ext) + int (cancelLatency w) \<le> checkedAt q) \<rparr>)"
  from dep have c: "kubeClient ext = Some c" by simp
  from env have ctxs: "Shutdown_ctx ext w = map ctx pre @ ctx r # map ctx rest"
    by (simp add: Shutdown_ctx_def ctx_def)
  from env have up: "\<forall>q \<in> set (map ctx pre). reportedUp (getAnswer q) \<and> \<not> ctxDone q"
    by (auto simp: ctx_def Timeout_def)
  from r have "reportedUp (getAnswer (ctx r))" "ctxDone (ctx r)"
    by (simp_all add: ctx_def Timeout_def)
  then have "waitForShutdown ext (ctx r # map ctx rest) =
     ([Sleep 500000000, Get (Namespace ext) (PodName ext)],
      Return (Some (errorString ''timed out when waiting for pod to shutdown'')))"
    using waitForShutdown_up [OF c, of "ctx r" "map ctx rest"] by simp
  then have "waitForShutdown ext (Shutdown_ctx ext w) =
     (pollCalls ext (Suc (length pre)),
      Return (Some (errorString ''timed out when waiting for pod to shutdown'')))"
    using waitForShutdown_rounds [OF c up, of "ctx r # map ctx rest"] ctxs
      pollCalls_Suc [of ext "length pre"]
    by simp
  then show "Shutdown ext w =
                (DeleteCollection (Namespace ext) (''kuberhealthy-check-name='' @ CheckName ext)
                   # pollCalls ext (Suc (length pre)),
                 Return (Some (errorString ''timed out when waiting for pod to shutdown'')))"
    using Shutdown_deployed [of ext c w] dep env by simp
next
  assume dep: "PodDeployed ext \<and> kubeClient ext = Some c"
    and env: "deleteAnswer w = None \<and>
       (\<forall>q \<in> set (timedPolls w). (\<exists>p. answered q = Inr p) \<and> checkedAt q < maxRunTime ext)"
  from dep have c: "kubeClient ext = Some c" by simp
  from env have "\<forall>q \<in> set (Shutdown_ctx ext w). (\<exists>p. getAnswer q = Inr p) \<and> \<not> ctxDone q"
    by (auto simp: Shutdown_ctx_def Timeout_def)
  from waitForShutdown_no_timeout [OF c this]
  show "snd (Shutdown ext w) = Return None \<or> snd (Shutdown ext w) = NoReturn"
    using Shutdown_deployed [of ext c w] dep env by simp
qed

text \<open>
  A checker without a deployed pod; a refused delete; a pod seen running twice and then
  failed; a pod still running 15 minutes and one second after the start, with the
  default max run time of 15 minutes; the first round of the latter alone.
\<close>

theorem Shutdown_contract_witness:
  "\<not> PodDeployed exampleChecker \<and>
   Shutdown exampleChecker slowEnv = ([], Return None) \<and>
   PodDeployed deployedChecker \<and> kubeClient deployedChecker = Some Clientset \<and>
   maxRunTime deployedChecker = 900000000000 \<and>
   Shutdown deployedChecker refusedEnv =
     ([DeleteCollection ''kuberhealthy'' ''kuberhealthy-check-name=external-check''],
      Return (Some (StatusError StatusReasonUnknown ''connection refused''))) \<and>
   Shutdown deployedChecker slowEnv =
     (DeleteCollection ''kuberhealthy'' ''kuberhealthy-check-name=external-check''
        # pollCalls deployedChecker 3, Return None) \<and>
   Shutdown deployedChecker timeoutEnv =
     (DeleteCollection ''kuberhealthy'' ''kuberhealthy-check-name=external-check''
        # pollCalls deployedChecker 2,
      Return (Some (errorString ''timed out when waiting for pod to shutdown''))) \<and>
   (snd (Shutdown deployedChecker (timeoutEnv\<lparr>timedPolls := take 1 (timedPolls timeoutEnv)\<rparr>)) = Return None \<or>
    snd (Shutdown deployedChecker (timeoutEnv\<lparr>timedPolls := take 1 (timedPolls timeoutEnv)\<rparr>)) = NoReturn)"
proof -
  have idle: "\<not> PodDeployed exampleChecker"
    by (simp add: exampleChecker_def New_def)
  have dep: "PodDeployed deployedChecker" "kubeClient deployedChecker = Some Clientset"
    "Namespace deployedChecker = ''kuberhealthy''" "CheckName deployedChecker = ''external-check''"
    "maxRunTime deployedChecker = 900000000000"
    by (simp_all add: deployedChecker_def exampleChecker_def New_def DefaultName_def
        defaultMaxRunTime_def time_Minute_def time_Second_def time_Millisecond_def
        time_Microsecond_def time_Nanosecond_def)
  have up: "reportedUp (Inr runningPod)"
    by (simp add: runningPod_def PodRunning_def PodFailed_def)
  have failed: "Phase (Status failedPod) = ''Failed''"
    by (simp add: failedPod_def PodFailed_def)
  have a: "Shutdown exampleChecker slowEnv = ([], Return None)"
    using Shutdown_contract [of exampleChecker slowEnv] idle by simp
  have b: "Shutdown deployedChecker refusedEnv =
     ([DeleteCollection ''kuberhealthy'' ''kuberhealthy-check-name=external-check''],
      Return (Some (StatusError StatusReasonUnknown ''connection refused'')))"
    using Shutdown_contract [of deployedChecker refusedEnv Clientset
        "StatusError StatusReasonUnknown ''connection refused''"] dep
    by (simp add: refusedEnv_def)
  have c: "Shutdown deployedChecker slowEnv =
     (DeleteCollection ''kuberhealthy'' ''kuberhealthy-check-name=external-check''
        # pollCalls deployedChecker 3, Return None)"
    using Shutdown_contract [of deployedChecker slowEnv Clientset _
        "[\<lparr>answered = Inr runningPod, checkedAt = 500000000\<rparr>,
          \<lparr>answered = Inr runningPod, checkedAt = 1000000000\<rparr>]"
        "\<lparr>answered = Inr failedPod, checkedAt = 1500000000\<rparr>" "[]" failedPod] dep up failed
    by (simp add: slowEnv_def numeral_3_eq_3)
  have d: "Shutdown deployedChecker timeoutEnv =
     (DeleteCollection ''kuberhealthy'' ''kuberhealthy-check-name=external-check''
        # pollCalls deployedChecker 2,
      Return (Some (errorString ''timed out when waiting for pod to shutdown'')))"
    using Shutdown_contract [of deployedChecker timeoutEnv Clientset _
        "[\<lparr>answered = Inr runningPod, checkedAt = 500000000\<rparr>]"
        "\<lparr>answered = Inr runningPod, checkedAt = 901000000000\<rparr>" "[]"] dep up
    by (simp add: timeoutEnv_def numeral_2_eq_2)
  have e: "snd (Shutdown deployedChecker (timeoutEnv\<lparr>timedPolls := take 1 (timedPolls timeoutEnv)\<rparr>)) = Return None \<or>
    snd (Shutdown deployedChecker (timeoutEnv\<lparr>timedPolls := take 1 (timedPolls timeoutEnv)\<rparr>)) = NoReturn"
    using Shutdown_contract [of deployedChecker "timeoutEnv\<lparr>timedPolls := take 1 (timedPolls timeoutEnv)\<rparr>" Clientset] dep
    by (simp add: timeoutEnv_def)
  from idle dep a b c d e show ?thesis by simp
qed

text \<open>
  Against the reading that \<open>Shutdown\<close> polls until the pod is absent from the API and
  returns nil on absence: here the first \<open>Get\<close> hands back the pod, in phase Failed, so
  the pod is not absent, and \<open>Shutdown\<close> returns nil after that one poll.
\<close>

theorem Shutdown_success_while_present:
  "Shutdown deployedChecker presentEnv =
     ([DeleteCollection ''kuberhealthy'' ''kuberhealthy-check-name=external-check'',
       Sleep 500000000, Get ''kuberhealthy'' ''external-check''], Return None) \<and>
   answered (hd (timedPolls presentEnv)) = Inr failedPod \<and>
   \<not> absentFromAPI (answered (hd (timedPolls presentEnv)))"
  by (simp add: Shutdown_def Shutdown_ctx_def podDeployed_def deletePod_def podExists_def presentEnv_def
      deployedChecker_def exampleChecker_def New_def failedPod_def runningPod_def zeroPod_def
      PodFailed_def half_second kuberhealthyCheckNameLabel_def DefaultName_def)

text \<open>
  When the pod is gone, \<open>Get\<close> answers with a not-found error, and \<open>Shutdown\<close> returns
  that error.
\<close>

lemma Shutdown_error_when_gone:
  "Shutdown deployedChecker goneEnv =
     ([DeleteCollection ''kuberhealthy'' ''kuberhealthy-check-name=external-check'',
       Sleep 500000000, Get ''kuberhealthy'' ''external-check''], Return (Some notFound)) \<and>
   absentFromAPI (answered (hd (timedPolls goneEnv)))"
  by (simp add: Shutdown_def Shutdown_ctx_def podDeployed_def deletePod_def podExists_def goneEnv_def
      deployedChecker_def exampleChecker_def New_def notFound_def
      half_second kuberhealthyCheckNameLabel_def DefaultName_def)


subsection \<open>The startup watcher\<close>

text \<open>
  What \<open>waitForPodRunning\<close> does with one event: an event that carries no pod is
  skipped; a pod whose run-id label is not the current run ID is skipped; a pod of this
  run in phase Running or Failed makes the watcher signal nil.
\<close>

lemma waitForPodRunning_range_event:
  "(Object e = OtherObject \<longrightarrow>
      waitForPodRunning_range ext ctx i (e # es) fin = waitForPodRunning_range ext ctx (Suc i) es fin) \<and>
   (\<forall>p. Object e = PodObject p \<and>
        lookupLabel (ObjectMeta_Labels p) ''kuberhealthy-run-id'' \<noteq> currentCheckUUID ext \<longrightarrow>
      waitForPodRunning_range ext ctx i (e # es) fin = waitForPodRunning_range ext ctx (Suc i) es fin) \<and>
   (\<forall>p. Object e = PodObject p \<and>
        lookupLabel (ObjectMeta_Labels p) ''kuberhealthy-run-id'' = currentCheckUUID ext \<and>
        (Phase (Status p) = ''Running'' \<or> Phase (Status p) = ''Failed'') \<longrightarrow>
      waitForPodRunning_range ext ctx i (e # es) fin = Return None)"
  by (auto simp: kuberhealthyRunIDLabel_def PodRunning_def PodFailed_def)

text \<open>
  A stream that is closed before an event fires the predicate or finds the context done
  makes the watcher signal the premature-close error; an empty stream is one.
\<close>

lemma waitForPodRunning_range_premature:
  "startupQuiet ext ctx i es \<Longrightarrow>
   waitForPodRunning_range ext ctx i es Closed =
     Return (Some (errorString ''external checker watch aborted pre-maturely''))"
  by (induction es arbitrary: i) (auto simp: errors_New_def split: object.splits)

subsection \<open>One iteration and the driver\<close>

text \<open>\<open>execute\<close> never writes the error buffer.\<close>

lemma execute_awaitExit_state: "fst (execute_awaitExit ext w) = ext"
  by (simp add: execute_awaitExit_def Let_def split: prod.splits outcome.splits select_case.splits)

lemma execute_awaitRunning_ErrorMessages:
  "ErrorMessages (fst (execute_awaitRunning ext w)) = ErrorMessages ext"
proof -
  have "fst (execute_awaitRunning ext w) = ext \<or>
        fst (execute_awaitRunning ext w) = fst (execute_awaitExit (setPodDeployed ext True) w)"
    by (simp add: execute_awaitRunning_def Let_def split: prod.splits outcome.splits select_case.splits)
  then show ?thesis
    by (auto simp: execute_awaitExit_state setPodDeployed_def)
qed

lemma execute_deploy_ErrorMessages:
  "ErrorMessages (fst (execute_deploy ext w)) = ErrorMessages ext"
proof -
  have "fst (execute_deploy ext w) = ext \<or>
        fst (execute_deploy ext w) = fst (execute_awaitRunning ext w)"
    by (simp add: execute_deploy_def split: prod.splits outcome.splits option.splits)
  then show ?thesis
    by (auto simp: execute_awaitRunning_ErrorMessages)
qed

lemma execute_ErrorMessages:
  "ErrorMessages (fst (execute ext client w)) = ErrorMessages ext"
proof (cases "PodSpec ext")
  case None
  then show ?thesis
    by (simp add: execute_def createCheckUUID_def validatePodSpec_def Let_def)
next
  case (Some ps)
  then show ?thesis
    by (simp add: execute_def createCheckUUID_def configureUserPodSpec_def Let_def
        execute_deploy_ErrorMessages split: option.splits)
qed

text \<open>
  The body of the loop in \<open>Run\<close>: an iteration that returns an error replaces the
  buffer by that one message; an iteration that returns nil leaves the buffer as it
  found it.
\<close>

lemma Run_iteration_buffer:
  "(snd (snd (execute ext client w)) = Return None \<longrightarrow>
      ErrorMessages (fst (Run_iteration ext client w)) = ErrorMessages ext) \<and>
   (\<forall>e. snd (snd (execute ext client w)) = Return (Some e) \<longrightarrow>
      ErrorMessages (fst (Run_iteration ext client w)) = [Error e])"
  using execute_ErrorMessages [of ext client w]
  by (cases "execute ext client w")
     (auto simp: Run_iteration_def Let_def setError_def split: outcome.splits option.splits)

text \<open>
  C1 says that a successful iteration resets the error buffer, so that the status query
  after a success that follows a failure reports OK with an empty list. In the code,
  \<open>Run\<close> writes the buffer only when \<open>execute\<close> returns an error, and \<open>clearErrors\<close> is
  never called. Here the first iteration fails in the clean-up of stray pods and the
  second succeeds; \<open>Run\<close> is still looping, and the status query after the second
  iteration reports Failing with the message of the first.
\<close>

theorem Run_keeps_stale_error:
  "snd (snd (execute exampleChecker (Some Clientset) failedCleanup)) =
     Return (Some (errorString
       ''failed to clean up pods before starting external checker: connection refused'')) \<and>
   snd (snd (execute (fst (Run_iteration exampleChecker (Some Clientset) failedCleanup))
       (Some Clientset) cleanRun)) = Return None \<and>
   snd (snd (Run exampleChecker (Some Clientset) [failedCleanup, cleanRun])) = NoReturn \<and>
   fst (CurrentStatus (fst (Run exampleChecker (Some Clientset) [failedCleanup, cleanRun]))) =
     (False, [''failed to clean up pods before starting external checker: connection refused''])"
  by (simp add: Run_iteration_def setError_def CurrentStatus_def Interval_def execute_defs example_defs)

text \<open>
  C3 says of the startup watcher that events without a pod and pods of another run are
  skipped, that a pod in phase Running or Failed signals success, that a stream which
  ends before that signals a premature-close error, and that a watch which closes after
  0 events fails the iteration. The watcher does all of this up to the signal (the two
  lemmas of the previous subsection), but \<open>execute\<close> receives from the watcher's channel
  without looking at the value. Here the first watch is closed after 0 events: the
  watcher signals the premature-close error, \<open>execute\<close> goes on to the second watch and
  returns nil, and \<open>Run\<close> (in debug mode, so that it returns) leaves the status at OK.
\<close>

theorem execute_ignores_premature_close:
  "snd (waitForPodRunning (exampleChecker\<lparr>kubeClient := Some Clientset\<rparr>) execute_ctx
       (watchRunningAnswer emptyWatch)) =
     Return (Some (errorString ''external checker watch aborted pre-maturely'')) \<and>
   snd (snd (execute exampleChecker (Some Clientset) emptyWatch)) = Return None \<and>
   map callName (fst (snd (execute exampleChecker (Some Clientset) emptyWatch))) =
     [''DeleteCollection'', ''Create'', ''Watch'', ''Watch''] \<and>
   PodDeployed (fst (execute exampleChecker (Some Clientset) emptyWatch)) \<and>
   snd (snd (Run (exampleChecker\<lparr>Debug := True\<rparr>) (Some Clientset) [emptyWatch])) = Return None \<and>
   fst (CurrentStatus (fst (Run (exampleChecker\<lparr>Debug := True\<rparr>) (Some Clientset) [emptyWatch]))) =
     (True, [])"
  by (simp add: Run_iteration_def setError_def CurrentStatus_def Interval_def execute_defs example_defs)

text \<open>
  The timer case of the first \<open>select\<close>, once it is taken: the pods of the check are
  deleted by selector and \<open>execute\<close> returns the timeout message, followed by the message
  of the delete's error if the delete fails. The case can be taken only after the
  watcher function has returned.
\<close>

lemma execute_awaitRunning_timer_case:
  assumes "kubeClient ext = Some c"
    and "snd (waitForPodRunning ext execute_ctx (watchRunningAnswer w)) = Return received"
    and "startupTimerFired w" and "startupSelect w = TimerCase"
  shows "execute_awaitRunning ext w =
     (ext,
      [Watch (Namespace ext) (''kuberhealthy-run-id='' @ currentCheckUUID ext),
       DeleteCollection (Namespace ext) (''kuberhealthy-check-name='' @ CheckName ext)],
      Return (Some (errorString
        (case startupDeleteAnswer w of
           None \<Rightarrow> ''failed to see pod running within timeout''
         | Some e \<Rightarrow>
             ''failed to see pod running within timeout and an error occurred when deleting the pod:''
               @ Error e))))"
  using assms
  by (auto simp: execute_awaitRunning_def waitForPodRunning_def deletePod_def selectCase_def
      errors_New_def kuberhealthyCheckNameLabel_def Let_def split: option.splits)

text \<open>
  C6 says that when the startup timeout fires before the startup watcher signals, the
  engine cancels the watcher, deletes the pod and aborts the iteration with
  \<open>failed to see pod running within timeout\<close>. In the code the watcher runs to its end
  inside the evaluation of the \<open>select\<close>'s operands, so the timer cannot interrupt it.
  Here the pod stays pending and the timer fires. In the first environment the watch
  delivers nothing more: \<open>execute\<close> never returns, and no delete follows the create. In
  the second the pod is seen running after the timer has fired and the \<open>select\<close> picks
  the watcher's case: \<open>execute\<close> marks the pod deployed, goes on to the second watch and
  returns nil, again without a delete after the create.
\<close>

theorem execute_startup_timeout_not_enforced:
  "startupTimerFired stalledStart \<and>
   snd (snd (execute exampleChecker (Some Clientset) stalledStart)) = NoReturn \<and>
   map callName (fst (snd (execute exampleChecker (Some Clientset) stalledStart))) =
     [''DeleteCollection'', ''Create'', ''Watch''] \<and>
   startupTimerFired lateStart \<and>
   snd (snd (execute exampleChecker (Some Clientset) lateStart)) = Return None \<and>
   map callName (fst (snd (execute exampleChecker (Some Clientset) lateStart))) =
     [''DeleteCollection'', ''Create'', ''Watch'', ''Watch''] \<and>
   PodDeployed (fst (execute exampleChecker (Some Clientset) lateStart))"
  by (simp add: execute_defs example_defs)

end
